theory Spec2Isabelle
  imports Main
begin

section \<open>Bucket sub-resource controllers: logging and server-side encryption\<close>

text \<open>
  A shallow embedding of \<^verbatim>\<open>pkg/controller/s3/bucket/loggingConfig.go\<close> and of the
  server-side-encryption client that follows it in the same source file.

  Conventions of the embedding:
  \<^item> a Go pointer is an \<open>option\<close> (\<open>None\<close> is \<^verbatim>\<open>nil\<close>);
  \<^item> a Go slice is a \<open>list option\<close>: \<open>None\<close> is the nil slice and \<open>Some []\<close> the empty
    non-nil slice, which \<^verbatim>\<open>len\<close> and \<^verbatim>\<open>range\<close> cannot tell apart but \<^verbatim>\<open>cmp.Equal\<close>
    and \<^verbatim>\<open>!= nil\<close> can;
  \<^item> the Go \<^verbatim>\<open>error\<close> interface is an \<open>error option\<close> (\<open>None\<close> is the nil error);
  \<^item> a run-time panic is the \<open>Inl\<close> branch of a sum;
  \<^item> the bucket is passed by pointer in Go, so every operation returns the bucket as it
    is when the operation ends, together with the state of the remote side and the log
    of the requests that were sent.

  Left out: the context argument, which the operations only hand to \<^verbatim>\<open>Send\<close>, and the
  debug line that the two \<^verbatim>\<open>LateInitialize\<close> write to the logger.
\<close>

subsection \<open>Slices\<close>

type_synonym 'a slice = "'a list option"

definition len :: "'a slice \<Rightarrow> nat" where
  "len s = (case s of None \<Rightarrow> 0 | Some xs \<Rightarrow> length xs)"

definition elems :: "'a slice \<Rightarrow> 'a list" where
  "elems s = (case s of None \<Rightarrow> [] | Some xs \<Rightarrow> xs)"

datatype panic = NilPointerDereference | IndexOutOfRange

text \<open>
  The loop \<^verbatim>\<open>for i, v := range src { dst[i] = f(v) }\<close> over a destination made
  beforehand. An index outside the destination panics in Go; here it leaves the
  destination as it is (\<open>list_update\<close>), and every caller makes the destination with the
  length of the source.
\<close>

fun fill_from :: "('a \<Rightarrow> 'b) \<Rightarrow> 'a list \<Rightarrow> nat \<Rightarrow> 'b list \<Rightarrow> 'b list" where
  "fill_from f [] i dst = dst"
| "fill_from f (v # vs) i dst = fill_from f vs (Suc i) (dst[i := f v])"

text \<open>
  The same loop when computing the element dereferences a pointer of the source element:
  \<open>f v = None\<close> is the nil dereference, which stops the loop with the destination
  filled up to that index.
\<close>

fun fill_from_deref :: "('a \<Rightarrow> 'b option) \<Rightarrow> 'a list \<Rightarrow> nat \<Rightarrow> 'b list \<Rightarrow> bool \<times> 'b list" where
  "fill_from_deref f [] i dst = (True, dst)"
| "fill_from_deref f (v # vs) i dst =
     (case f v of
        None \<Rightarrow> (False, dst)
      | Some y \<Rightarrow> fill_from_deref f vs (Suc i) (dst[i := y]))"

text \<open>The loop \<^verbatim>\<open>for _, v := range src { dst = append(dst, f(v)) }\<close>.\<close>

fun append_from :: "('a \<Rightarrow> 'b) \<Rightarrow> 'a list \<Rightarrow> 'b list \<Rightarrow> 'b list" where
  "append_from f [] dst = dst"
| "append_from f (v # vs) dst = append_from f vs (dst @ [f v])"

subsection \<open>The desired state: package v1beta1\<close>

text \<open>
  The declarations of these types are not in the source file; the fields and their types
  are the ones the code reads and writes. \<^verbatim>\<open>ApplyServerSideEncryptionByDefault\<close> of a
  desired rule is a struct value (the code assigns a composite literal to it), so a
  desired rule always has one.
\<close>

record v1beta1_TargetGrantee =
  DisplayName :: "string option"
  EmailAddress :: "string option"
  ID :: "string option"
  Type :: string
  URI :: "string option"

record v1beta1_TargetGrant =
  Grantee :: v1beta1_TargetGrantee
  Permission :: string

record v1beta1_LoggingConfiguration =
  TargetBucket :: "string option"
  TargetPrefix :: string
  TargetGrants :: "v1beta1_TargetGrant slice"

record v1beta1_ServerSideEncryptionByDefault =
  KMSMasterKeyID :: "string option"
  SSEAlgorithm :: string

record v1beta1_ServerSideEncryptionRule =
  ApplyServerSideEncryptionByDefault :: v1beta1_ServerSideEncryptionByDefault

record v1beta1_ServerSideEncryptionConfiguration =
  Rules :: "v1beta1_ServerSideEncryptionRule slice"

text \<open>
  The bucket: its external name (what \<^verbatim>\<open>meta.GetExternalName\<close> reads) and the two
  facets of \<^verbatim>\<open>Spec.ForProvider\<close> that this file manages.
\<close>

record v1beta1_Bucket =
  ExternalName :: string
  ForProvider_LoggingConfiguration :: "v1beta1_LoggingConfiguration option"
  ForProvider_ServerSideEncryptionConfiguration :: "v1beta1_ServerSideEncryptionConfiguration option"

subsection \<open>The remote shapes: package awss3\<close>

text \<open>
  The string-based enumerations of the SDK (\<^verbatim>\<open>Type\<close>, \<^verbatim>\<open>BucketLogsPermission\<close>,
  \<^verbatim>\<open>ServerSideEncryption\<close>) are strings, and the conversions to and from \<^verbatim>\<open>string\<close> are
  the identity.
\<close>

record awss3_Grantee =
  awsDisplayName :: "string option"
  awsEmailAddress :: "string option"
  awsID :: "string option"
  awsType :: string
  awsURI :: "string option"

record awss3_TargetGrant =
  awsGrantee :: "awss3_Grantee option"
  awsPermission :: string

record awss3_LoggingEnabled =
  awsTargetBucket :: "string option"
  awsTargetGrants :: "awss3_TargetGrant slice"
  awsTargetPrefix :: "string option"

record awss3_ServerSideEncryptionByDefault =
  awsKMSMasterKeyID :: "string option"
  awsSSEAlgorithm :: string

record awss3_ServerSideEncryptionRule =
  awsApplyServerSideEncryptionByDefault :: "awss3_ServerSideEncryptionByDefault option"

record awss3_ServerSideEncryptionConfiguration =
  awsRules :: "awss3_ServerSideEncryptionRule slice"

record awss3_GetBucketLoggingInput =
  GetBucketLogging_Bucket :: "string option"

record awss3_GetBucketLoggingOutput =
  LoggingEnabled :: "awss3_LoggingEnabled option"

text \<open>
  The response of a read embeds a pointer to the output, and the fields of the output
  are read through it: \<^verbatim>\<open>external.LoggingEnabled\<close> panics when the pointer is nil.
\<close>

record awss3_GetBucketLoggingResponse =
  GetBucketLoggingOutput :: "awss3_GetBucketLoggingOutput option"

record awss3_BucketLoggingStatus =
  Status_LoggingEnabled :: "awss3_LoggingEnabled option"

record awss3_PutBucketLoggingInput =
  PutBucketLogging_Bucket :: "string option"
  BucketLoggingStatus :: "awss3_BucketLoggingStatus option"

record awss3_GetBucketEncryptionInput =
  GetBucketEncryption_Bucket :: "string option"

record awss3_GetBucketEncryptionOutput =
  ServerSideEncryptionConfiguration :: "awss3_ServerSideEncryptionConfiguration option"

text \<open>
  The same embedding; \<^verbatim>\<open>LateInitialize\<close> of the encryption facet tests the pointer
  against nil, \<^verbatim>\<open>Observe\<close> does not.
\<close>

record awss3_GetBucketEncryptionResponse =
  GetBucketEncryptionOutput :: "awss3_GetBucketEncryptionOutput option"

record awss3_PutBucketEncryptionInput =
  PutBucketEncryption_Bucket :: "string option"
  Put_ServerSideEncryptionConfiguration :: "awss3_ServerSideEncryptionConfiguration option"

record awss3_DeleteBucketEncryptionInput =
  DeleteBucketEncryption_Bucket :: "string option"

subsection \<open>Errors and the helpers of other packages\<close>

text \<open>
  Modelled from the spec: the error values of the remote client, which the source file
  receives and never builds. The taxonomy is the one of the error-handling section:
  the recognised not-configured condition, any other failure of a read, a failure of a
  write, and an error wrapped with the tag of the facet and the operation.
\<close>

datatype error =
    RemoteNotConfigured
  | RemoteReadFailure string
  | RemoteWriteFailure string
  | Wrapped error string

text \<open>
  Modelled from the spec: \<^verbatim>\<open>s3.SSEConfigurationNotFound\<close> (package \<^verbatim>\<open>pkg/clients/s3\<close>)
  recognises the not-configured condition, which is distinguishable from every other
  failure.
\<close>

definition SSEConfigurationNotFound :: "error \<Rightarrow> bool" where
  "SSEConfigurationNotFound err = (err = RemoteNotConfigured)"

text \<open>
  Modelled from the spec: \<^verbatim>\<open>awsclient.Wrap\<close> (package \<^verbatim>\<open>pkg/clients\<close>) wraps a failure
  with a tag. The nil error stays nil: \<^verbatim>\<open>CreateOrUpdate\<close> returns the wrapped result of
  the write, and it succeeds when the write does.
\<close>

definition Wrap :: "error option \<Rightarrow> string \<Rightarrow> error option" where
  "Wrap err msg = (case err of None \<Rightarrow> None | Some e \<Rightarrow> Some (Wrapped e msg))"

text \<open>
  \<^verbatim>\<open>resource.Ignore\<close> of the crossplane-runtime library: the nil error when the
  predicate holds of the error, the error itself otherwise.
\<close>

definition Ignore :: "(error \<Rightarrow> bool) \<Rightarrow> error option \<Rightarrow> error option" where
  "Ignore is_ignored err =
     (case err of None \<Rightarrow> None | Some e \<Rightarrow> if is_ignored e then None else Some e)"

text \<open>
  Modelled from the spec: \<^verbatim>\<open>awsclient.LateInitializeStringPtr\<close> and
  \<^verbatim>\<open>awsclient.LateInitializeString\<close> (package \<^verbatim>\<open>pkg/clients\<close>). A field that is unset
  (a nil pointer, an empty string) takes the remote value; a field that is set keeps
  its own.
\<close>

definition LateInitializeStringPtr :: "string option \<Rightarrow> string option \<Rightarrow> string option" where
  "LateInitializeStringPtr in_ptr from_ptr = (if in_ptr \<noteq> None then in_ptr else from_ptr)"

definition LateInitializeString :: "string \<Rightarrow> string option \<Rightarrow> string" where
  "LateInitializeString in_str from_ptr =
     (case from_ptr of
        None \<Rightarrow> in_str
      | Some v \<Rightarrow> if in_str = [] then v else in_str)"

text \<open>
  The two conversions between strings and string pointers, \<^verbatim>\<open>awsclient.String\<close> and
  \<^verbatim>\<open>awsclient.StringValue\<close> (package \<^verbatim>\<open>pkg/clients\<close>), are not in the source file and
  the spec does not describe them, so they are parameters of everything that calls them.
\<close>

record awsclient =
  String :: "string \<Rightarrow> string option"
  StringValue :: "string option \<Rightarrow> string"

text \<open>
  One instance, for running the code on concrete inputs: the empty string is the nil
  pointer and back.
\<close>

definition pointer_helpers :: awsclient where
  "pointer_helpers =
     \<lparr> String = (\<lambda>v. if v = [] then None else Some v),
       StringValue = (\<lambda>p. case p of None \<Rightarrow> [] | Some v \<Rightarrow> v) \<rparr>"

definition loggingGetFailed :: string where
  "loggingGetFailed = ''cannot get Bucket logging configuration''"

definition loggingPutFailed :: string where
  "loggingPutFailed = ''cannot put Bucket logging configuration''"

definition sseGetFailed :: string where
  "sseGetFailed = ''cannot get Bucket encryption configuration''"

definition ssePutFailed :: string where
  "ssePutFailed = ''cannot put Bucket encryption configuration''"

definition sseDeleteFailed :: string where
  "sseDeleteFailed = ''cannot delete Bucket encryption configuration''"

subsection \<open>The remote client\<close>

text \<open>
  \<^verbatim>\<open>s3.BucketClient\<close> is an interface: five requests, each a function of the request
  and of the state of the remote side, returning the answer of \<^verbatim>\<open>Send\<close> and the next
  state. The answers of the two writes and of the delete are used for their error only.
\<close>

record 's BucketClient =
  GetBucketLoggingRequest ::
    "awss3_GetBucketLoggingInput \<Rightarrow> 's \<Rightarrow> (error + awss3_GetBucketLoggingResponse) \<times> 's"
  PutBucketLoggingRequest ::
    "awss3_PutBucketLoggingInput \<Rightarrow> 's \<Rightarrow> error option \<times> 's"
  GetBucketEncryptionRequest ::
    "awss3_GetBucketEncryptionInput \<Rightarrow> 's \<Rightarrow> (error + awss3_GetBucketEncryptionResponse) \<times> 's"
  PutBucketEncryptionRequest ::
    "awss3_PutBucketEncryptionInput \<Rightarrow> 's \<Rightarrow> error option \<times> 's"
  DeleteBucketEncryptionRequest ::
    "awss3_DeleteBucketEncryptionInput \<Rightarrow> 's \<Rightarrow> error option \<times> 's"

datatype call =
    GetBucketLoggingCall awss3_GetBucketLoggingInput
  | PutBucketLoggingCall awss3_PutBucketLoggingInput
  | GetBucketEncryptionCall awss3_GetBucketEncryptionInput
  | PutBucketEncryptionCall awss3_PutBucketEncryptionInput
  | DeleteBucketEncryptionCall awss3_DeleteBucketEncryptionInput

text \<open>The world outside the controller: the remote side and the requests sent so far.\<close>

record 's world =
  remote :: 's
  calls :: "call list"

definition send_GetBucketLogging ::
  "'s BucketClient \<Rightarrow> awss3_GetBucketLoggingInput \<Rightarrow> 's world
     \<Rightarrow> (error + awss3_GetBucketLoggingResponse) \<times> 's world" where
  "send_GetBucketLogging c inp w =
     (case GetBucketLoggingRequest c inp (remote w) of
        (r, s) \<Rightarrow> (r, \<lparr> remote = s, calls = calls w @ [GetBucketLoggingCall inp] \<rparr>))"

definition send_PutBucketLogging ::
  "'s BucketClient \<Rightarrow> awss3_PutBucketLoggingInput \<Rightarrow> 's world \<Rightarrow> error option \<times> 's world" where
  "send_PutBucketLogging c inp w =
     (case PutBucketLoggingRequest c inp (remote w) of
        (r, s) \<Rightarrow> (r, \<lparr> remote = s, calls = calls w @ [PutBucketLoggingCall inp] \<rparr>))"

definition send_GetBucketEncryption ::
  "'s BucketClient \<Rightarrow> awss3_GetBucketEncryptionInput \<Rightarrow> 's world
     \<Rightarrow> (error + awss3_GetBucketEncryptionResponse) \<times> 's world" where
  "send_GetBucketEncryption c inp w =
     (case GetBucketEncryptionRequest c inp (remote w) of
        (r, s) \<Rightarrow> (r, \<lparr> remote = s, calls = calls w @ [GetBucketEncryptionCall inp] \<rparr>))"

definition send_PutBucketEncryption ::
  "'s BucketClient \<Rightarrow> awss3_PutBucketEncryptionInput \<Rightarrow> 's world \<Rightarrow> error option \<times> 's world" where
  "send_PutBucketEncryption c inp w =
     (case PutBucketEncryptionRequest c inp (remote w) of
        (r, s) \<Rightarrow> (r, \<lparr> remote = s, calls = calls w @ [PutBucketEncryptionCall inp] \<rparr>))"

definition send_DeleteBucketEncryption ::
  "'s BucketClient \<Rightarrow> awss3_DeleteBucketEncryptionInput \<Rightarrow> 's world \<Rightarrow> error option \<times> 's world" where
  "send_DeleteBucketEncryption c inp w =
     (case DeleteBucketEncryptionRequest c inp (remote w) of
        (r, s) \<Rightarrow> (r, \<lparr> remote = s, calls = calls w @ [DeleteBucketEncryptionCall inp] \<rparr>))"

datatype ResourceStatus = Updated | NeedsUpdate | NeedsDeletion

subsection \<open>The logging facet\<close>

definition zero_TargetGrant :: v1beta1_TargetGrant where
  "zero_TargetGrant =
     \<lparr> Grantee = \<lparr> DisplayName = None, EmailAddress = None, ID = None, Type = [], URI = None \<rparr>,
       Permission = [] \<rparr>"

definition zero_LoggingConfiguration :: v1beta1_LoggingConfiguration where
  "zero_LoggingConfiguration = \<lparr> TargetBucket = None, TargetPrefix = [], TargetGrants = None \<rparr>"

text \<open>
  The body of the loop of \<^verbatim>\<open>LateInitialize\<close>: the local grant of a remote one.
  \<^verbatim>\<open>v.Grantee\<close> is a pointer, and reading a field through it when it is nil panics.
\<close>

definition local_TargetGrant :: "awss3_TargetGrant \<Rightarrow> v1beta1_TargetGrant option" where
  "local_TargetGrant v =
     (case awsGrantee v of
        None \<Rightarrow> None
      | Some g \<Rightarrow>
          Some \<lparr> Grantee = \<lparr> DisplayName = awsDisplayName g, EmailAddress = awsEmailAddress g,
                   ID = awsID g, Type = awsType g, URI = awsURI g \<rparr>,
                 Permission = awsPermission v \<rparr>)"

definition logging_LateInitialize ::
  "awsclient \<Rightarrow> 's BucketClient \<Rightarrow> v1beta1_Bucket \<Rightarrow> 's world
     \<Rightarrow> (panic + error option) \<times> v1beta1_Bucket \<times> 's world" where
  "logging_LateInitialize ac c bucket w =
     (case send_GetBucketLogging c \<lparr> GetBucketLogging_Bucket = String ac (ExternalName bucket) \<rparr> w of
        (Inl err, w') \<Rightarrow> (Inr (Wrap (Some err) loggingGetFailed), bucket, w')
      | (Inr external, w') \<Rightarrow>
          (case GetBucketLoggingOutput external of
             None \<Rightarrow> (Inl NilPointerDereference, bucket, w')
           | Some out \<Rightarrow>
          (case LoggingEnabled out of
             None \<Rightarrow> (Inr None, bucket, w')
           | Some le \<Rightarrow>
               let config0 = (case ForProvider_LoggingConfiguration bucket of
                                None \<Rightarrow> zero_LoggingConfiguration
                              | Some cfg \<Rightarrow> cfg);
                   config1 = config0 \<lparr> TargetBucket :=
                               LateInitializeStringPtr (TargetBucket config0) (awsTargetBucket le) \<rparr>;
                   config2 = config1 \<lparr> TargetPrefix :=
                               LateInitializeString (TargetPrefix config1) (awsTargetPrefix le) \<rparr>
               in
                 if awsTargetGrants le \<noteq> None \<and> len (TargetGrants config2) = 0 then
                   (case fill_from_deref local_TargetGrant (elems (awsTargetGrants le)) 0
                           (replicate (len (awsTargetGrants le)) zero_TargetGrant) of
                      (ok, grants) \<Rightarrow>
                        (if ok then Inr None else Inl NilPointerDereference,
                         bucket \<lparr> ForProvider_LoggingConfiguration :=
                                    Some (config2 \<lparr> TargetGrants := Some grants \<rparr>) \<rparr>,
                         w'))
                 else
                   (Inr None, bucket \<lparr> ForProvider_LoggingConfiguration := Some config2 \<rparr>, w'))))"

text \<open>The body of the loops of the two renderings: the remote grant of a local one.\<close>

definition aws_TargetGrant :: "v1beta1_TargetGrant \<Rightarrow> awss3_TargetGrant" where
  "aws_TargetGrant g =
     \<lparr> awsGrantee = Some \<lparr> awsDisplayName = DisplayName (Grantee g),
                           awsEmailAddress = EmailAddress (Grantee g),
                           awsID = ID (Grantee g),
                           awsType = Type (Grantee g),
                           awsURI = URI (Grantee g) \<rparr>,
       awsPermission = Permission g \<rparr>"

definition zero_awss3_TargetGrant :: awss3_TargetGrant where
  "zero_awss3_TargetGrant = \<lparr> awsGrantee = None, awsPermission = [] \<rparr>"

definition GenerateAWSLogging ::
  "awsclient \<Rightarrow> v1beta1_LoggingConfiguration option \<Rightarrow> awss3_LoggingEnabled option" where
  "GenerateAWSLogging ac local =
     (case local of
        None \<Rightarrow> None
      | Some l \<Rightarrow>
          let output = \<lparr> awsTargetBucket = TargetBucket l,
                         awsTargetGrants = None,
                         awsTargetPrefix = String ac (TargetPrefix l) \<rparr>;
              output1 = (if TargetGrants l \<noteq> None
                         then output \<lparr> awsTargetGrants :=
                                Some (replicate (len (TargetGrants l)) zero_awss3_TargetGrant) \<rparr>
                         else output)
          in Some (case awsTargetGrants output1 of
                     None \<Rightarrow> output1
                   | Some dst \<Rightarrow>
                       output1 \<lparr> awsTargetGrants :=
                         Some (fill_from aws_TargetGrant (elems (TargetGrants l)) 0 dst) \<rparr>))"

text \<open>
  \<^verbatim>\<open>cmp.Equal\<close> of the go-cmp library on two \<^verbatim>\<open>*awss3.LoggingEnabled\<close>: pointers are
  equal when both are nil or both are not and what they point to is equal, slices when
  both are nil or both are not and they are equal element by element (an empty slice is
  not equal to the nil slice), structs field by field, strings as strings. On the
  encoding above this is the equality of HOL. The option \<^verbatim>\<open>cmpopts.IgnoreTypes\<close> names two
  reference types of which the remote shapes have no field.
\<close>

definition cmp_Equal :: "awss3_LoggingEnabled option \<Rightarrow> awss3_LoggingEnabled option \<Rightarrow> bool" where
  "cmp_Equal x y = (x = y)"

definition logging_Observe ::
  "awsclient \<Rightarrow> 's BucketClient \<Rightarrow> v1beta1_Bucket \<Rightarrow> 's world
     \<Rightarrow> (panic + ResourceStatus \<times> error option) \<times> v1beta1_Bucket \<times> 's world" where
  "logging_Observe ac c bucket w =
     (case send_GetBucketLogging c \<lparr> GetBucketLogging_Bucket = String ac (ExternalName bucket) \<rparr> w of
        (Inl err, w') \<Rightarrow> (Inr (NeedsUpdate, Wrap (Some err) loggingGetFailed), bucket, w')
      | (Inr external, w') \<Rightarrow>
          (case GetBucketLoggingOutput external of
             None \<Rightarrow> (Inl NilPointerDereference, bucket, w')
           | Some out \<Rightarrow>
               if \<not> cmp_Equal (GenerateAWSLogging ac (ForProvider_LoggingConfiguration bucket))
                               (LoggingEnabled out)
               then (Inr (NeedsUpdate, None), bucket, w')
               else (Inr (Updated, None), bucket, w')))"

text \<open>
  \<^verbatim>\<open>config\<close> is a pointer that the function reads without a test, so the nil
  configuration panics; \<^verbatim>\<open>CreateOrUpdate\<close> tests it before the call.
\<close>

definition GeneratePutBucketLoggingInput ::
  "awsclient \<Rightarrow> string \<Rightarrow> v1beta1_LoggingConfiguration option
     \<Rightarrow> panic + awss3_PutBucketLoggingInput" where
  "GeneratePutBucketLoggingInput ac name config =
     (case config of
        None \<Rightarrow> Inl NilPointerDereference
      | Some cfg \<Rightarrow>
          Inr \<lparr> PutBucketLogging_Bucket = String ac name,
                BucketLoggingStatus = Some \<lparr> Status_LoggingEnabled = Some
                  \<lparr> awsTargetBucket = TargetBucket cfg,
                    awsTargetGrants = Some (append_from aws_TargetGrant (elems (TargetGrants cfg)) []),
                    awsTargetPrefix = String ac (TargetPrefix cfg) \<rparr> \<rparr> \<rparr>)"

definition logging_CreateOrUpdate ::
  "awsclient \<Rightarrow> 's BucketClient \<Rightarrow> v1beta1_Bucket \<Rightarrow> 's world
     \<Rightarrow> (panic + error option) \<times> v1beta1_Bucket \<times> 's world" where
  "logging_CreateOrUpdate ac c bucket w =
     (if ForProvider_LoggingConfiguration bucket = None then (Inr None, bucket, w)
      else
        case GeneratePutBucketLoggingInput ac (ExternalName bucket)
               (ForProvider_LoggingConfiguration bucket) of
          Inl p \<Rightarrow> (Inl p, bucket, w)
        | Inr input \<Rightarrow>
            (case send_PutBucketLogging c input w of
               (err, w') \<Rightarrow> (Inr (Wrap err loggingPutFailed), bucket, w')))"

definition logging_Delete ::
  "v1beta1_Bucket \<Rightarrow> 's world \<Rightarrow> (panic + error option) \<times> v1beta1_Bucket \<times> 's world" where
  "logging_Delete bucket w = (Inr None, bucket, w)"

subsection \<open>The server-side-encryption facet\<close>

definition zero_ServerSideEncryptionRule :: v1beta1_ServerSideEncryptionRule where
  "zero_ServerSideEncryptionRule =
     \<lparr> ApplyServerSideEncryptionByDefault = \<lparr> KMSMasterKeyID = None, SSEAlgorithm = [] \<rparr> \<rparr>"

definition zero_awss3_ServerSideEncryptionRule :: awss3_ServerSideEncryptionRule where
  "zero_awss3_ServerSideEncryptionRule = \<lparr> awsApplyServerSideEncryptionByDefault = None \<rparr>"

text \<open>
  The body of the loop of \<^verbatim>\<open>GenerateLocalBucketEncryption\<close>: the local rule of a remote
  one. \<^verbatim>\<open>rule.ApplyServerSideEncryptionByDefault\<close> is a pointer, and reading a field
  through it when it is nil panics.
\<close>

definition local_ServerSideEncryptionRule ::
  "awss3_ServerSideEncryptionRule \<Rightarrow> v1beta1_ServerSideEncryptionRule option" where
  "local_ServerSideEncryptionRule rule =
     (case awsApplyServerSideEncryptionByDefault rule of
        None \<Rightarrow> None
      | Some d \<Rightarrow>
          Some \<lparr> ApplyServerSideEncryptionByDefault =
                   \<lparr> KMSMasterKeyID = awsKMSMasterKeyID d, SSEAlgorithm = awsSSEAlgorithm d \<rparr> \<rparr>)"

definition GenerateLocalBucketEncryption ::
  "awss3_ServerSideEncryptionConfiguration option
     \<Rightarrow> panic + v1beta1_ServerSideEncryptionRule slice" where
  "GenerateLocalBucketEncryption config =
     (case config of
        None \<Rightarrow> Inl NilPointerDereference
      | Some cfg \<Rightarrow>
          (case fill_from_deref local_ServerSideEncryptionRule (elems (awsRules cfg)) 0
                  (replicate (len (awsRules cfg)) zero_ServerSideEncryptionRule) of
             (ok, rules) \<Rightarrow> if ok then Inr (Some rules) else Inl NilPointerDereference))"

definition sse_LateInitialize ::
  "awsclient \<Rightarrow> 's BucketClient \<Rightarrow> v1beta1_Bucket \<Rightarrow> 's world
     \<Rightarrow> (panic + error option) \<times> v1beta1_Bucket \<times> 's world" where
  "sse_LateInitialize ac c bucket w =
     (case send_GetBucketEncryption c
             \<lparr> GetBucketEncryption_Bucket = String ac (ExternalName bucket) \<rparr> w of
        (Inl err, w') \<Rightarrow>
          if SSEConfigurationNotFound err then (Inr None, bucket, w')
          else (Inr (Wrap (Some err) sseGetFailed), bucket, w')
      | (Inr external, w') \<Rightarrow>
          (case GetBucketEncryptionOutput external of
             None \<Rightarrow> (Inr None, bucket, w')
           | Some out \<Rightarrow>
               (case ServerSideEncryptionConfiguration out of
                  None \<Rightarrow> (Inr None, bucket, w')
                | Some ext \<Rightarrow>
                    let config = (case ForProvider_ServerSideEncryptionConfiguration bucket of
                                    None \<Rightarrow> \<lparr> Rules = None \<rparr>
                                  | Some cfg \<Rightarrow> cfg)
                    in (case GenerateLocalBucketEncryption (Some ext) of
                          Inl p \<Rightarrow>
                            (Inl p,
                             bucket \<lparr> ForProvider_ServerSideEncryptionConfiguration := Some config \<rparr>,
                             w')
                        | Inr rules \<Rightarrow>
                            (Inr None,
                             bucket \<lparr> ForProvider_ServerSideEncryptionConfiguration :=
                                        Some (config \<lparr> Rules := rules \<rparr>) \<rparr>,
                             w')))))"

text \<open>
  The loop of \<^verbatim>\<open>Observe\<close> over the desired rules, \<open>i\<close> the index of the rule at the head.
  \<^verbatim>\<open>Rules[i]\<close> of the remote side panics out of range, and \<^verbatim>\<open>outputRule\<close> is a pointer
  read without a test.
\<close>

fun observe_rules ::
  "awsclient \<Rightarrow> awss3_ServerSideEncryptionRule list \<Rightarrow> nat
     \<Rightarrow> v1beta1_ServerSideEncryptionRule list \<Rightarrow> panic + ResourceStatus \<times> error option" where
  "observe_rules ac ext i [] = Inr (Updated, None)"
| "observe_rules ac ext i (Rule # rest) =
     (if length ext \<le> i then Inl IndexOutOfRange
      else
        case awsApplyServerSideEncryptionByDefault (ext ! i) of
          None \<Rightarrow> Inl NilPointerDereference
        | Some outputRule \<Rightarrow>
            if StringValue ac (awsKMSMasterKeyID outputRule)
                 \<noteq> StringValue ac (KMSMasterKeyID (ApplyServerSideEncryptionByDefault Rule))
            then Inr (NeedsUpdate, None)
            else if awsSSEAlgorithm outputRule
                      \<noteq> SSEAlgorithm (ApplyServerSideEncryptionByDefault Rule)
            then Inr (NeedsUpdate, None)
            else observe_rules ac ext (Suc i) rest)"

definition sse_Observe ::
  "awsclient \<Rightarrow> 's BucketClient \<Rightarrow> v1beta1_Bucket \<Rightarrow> 's world
     \<Rightarrow> (panic + ResourceStatus \<times> error option) \<times> v1beta1_Bucket \<times> 's world" where
  "sse_Observe ac c bucket w =
     (let config = ForProvider_ServerSideEncryptionConfiguration bucket in
      case send_GetBucketEncryption c
             \<lparr> GetBucketEncryption_Bucket = String ac (ExternalName bucket) \<rparr> w of
        (Inl err, w') \<Rightarrow>
          if SSEConfigurationNotFound err \<and> config = None then (Inr (Updated, None), bucket, w')
          else (Inr (NeedsUpdate, Wrap (Ignore SSEConfigurationNotFound (Some err)) sseGetFailed),
                bucket, w')
      | (Inr external, w') \<Rightarrow>
          (case GetBucketEncryptionOutput external of
             None \<Rightarrow> (Inl NilPointerDereference, bucket, w')
           | Some out \<Rightarrow>
               (case (ServerSideEncryptionConfiguration out, config) of
                  (Some ext, None) \<Rightarrow> (Inr (NeedsDeletion, None), bucket, w')
                | (None, None) \<Rightarrow> (Inr (Updated, None), bucket, w')
                | (None, Some cfg) \<Rightarrow> (Inr (NeedsUpdate, None), bucket, w')
                | (Some ext, Some cfg) \<Rightarrow>
                    if len (awsRules ext) \<noteq> len (Rules cfg) then (Inr (NeedsUpdate, None), bucket, w')
                    else (observe_rules ac (elems (awsRules ext)) 0 (elems (Rules cfg)), bucket, w'))))"

text \<open>
  The body of the loop of \<^verbatim>\<open>GeneratePutBucketEncryptionInput\<close>: the remote rule of a
  local one.
\<close>

definition aws_ServerSideEncryptionRule ::
  "v1beta1_ServerSideEncryptionRule \<Rightarrow> awss3_ServerSideEncryptionRule" where
  "aws_ServerSideEncryptionRule rule =
     \<lparr> awsApplyServerSideEncryptionByDefault = Some
         \<lparr> awsKMSMasterKeyID = KMSMasterKeyID (ApplyServerSideEncryptionByDefault rule),
           awsSSEAlgorithm = SSEAlgorithm (ApplyServerSideEncryptionByDefault rule) \<rparr> \<rparr>"

definition GeneratePutBucketEncryptionInput ::
  "awsclient \<Rightarrow> string \<Rightarrow> v1beta1_ServerSideEncryptionConfiguration option
     \<Rightarrow> panic + awss3_PutBucketEncryptionInput" where
  "GeneratePutBucketEncryptionInput ac name config =
     (case config of
        None \<Rightarrow> Inl NilPointerDereference
      | Some cfg \<Rightarrow>
          Inr \<lparr> PutBucketEncryption_Bucket = String ac name,
                Put_ServerSideEncryptionConfiguration = Some
                  \<lparr> awsRules = Some (fill_from aws_ServerSideEncryptionRule (elems (Rules cfg)) 0
                       (replicate (len (Rules cfg)) zero_awss3_ServerSideEncryptionRule)) \<rparr> \<rparr>)"

definition sse_CreateOrUpdate ::
  "awsclient \<Rightarrow> 's BucketClient \<Rightarrow> v1beta1_Bucket \<Rightarrow> 's world
     \<Rightarrow> (panic + error option) \<times> v1beta1_Bucket \<times> 's world" where
  "sse_CreateOrUpdate ac c bucket w =
     (if ForProvider_ServerSideEncryptionConfiguration bucket = None then (Inr None, bucket, w)
      else
        case GeneratePutBucketEncryptionInput ac (ExternalName bucket)
               (ForProvider_ServerSideEncryptionConfiguration bucket) of
          Inl p \<Rightarrow> (Inl p, bucket, w)
        | Inr input \<Rightarrow>
            (case send_PutBucketEncryption c input w of
               (err, w') \<Rightarrow> (Inr (Wrap err ssePutFailed), bucket, w')))"

definition sse_Delete ::
  "awsclient \<Rightarrow> 's BucketClient \<Rightarrow> v1beta1_Bucket \<Rightarrow> 's world
     \<Rightarrow> (panic + error option) \<times> v1beta1_Bucket \<times> 's world" where
  "sse_Delete ac c bucket w =
     (case send_DeleteBucketEncryption c
             \<lparr> DeleteBucketEncryption_Bucket = String ac (ExternalName bucket) \<rparr> w of
        (err, w') \<Rightarrow> (Inr (Wrap err sseDeleteFailed), bucket, w'))"

subsection \<open>Two remote sides for running the code\<close>

text \<open>
  A remote side that answers every read with a fixed answer and accepts every write and
  delete without keeping anything.
\<close>

definition fixed_client ::
  "(error + awss3_GetBucketLoggingResponse) \<Rightarrow> (error + awss3_GetBucketEncryptionResponse)
     \<Rightarrow> unit BucketClient" where
  "fixed_client logging_answer encryption_answer =
     \<lparr> GetBucketLoggingRequest = (\<lambda>inp s. (logging_answer, s)),
       PutBucketLoggingRequest = (\<lambda>inp s. (None, s)),
       GetBucketEncryptionRequest = (\<lambda>inp s. (encryption_answer, s)),
       PutBucketEncryptionRequest = (\<lambda>inp s. (None, s)),
       DeleteBucketEncryptionRequest = (\<lambda>inp s. (None, s)) \<rparr>"

text \<open>
  A remote side that stores exactly the shape of the last replace request and reads it
  back; a delete removes the encryption configuration, and reading it when there is none
  is the not-configured condition.
\<close>

record store =
  stored_logging :: "awss3_LoggingEnabled option"
  stored_encryption :: "awss3_ServerSideEncryptionConfiguration option"

definition store_client :: "store BucketClient" where
  "store_client =
     \<lparr> GetBucketLoggingRequest = (\<lambda>inp s.
         (Inr \<lparr> GetBucketLoggingOutput = Some \<lparr> LoggingEnabled = stored_logging s \<rparr> \<rparr>, s)),
       PutBucketLoggingRequest = (\<lambda>inp s.
         (None, s \<lparr> stored_logging :=
                     (case BucketLoggingStatus inp of
                        None \<Rightarrow> None
                      | Some status \<Rightarrow> Status_LoggingEnabled status) \<rparr>)),
       GetBucketEncryptionRequest = (\<lambda>inp s.
         (case stored_encryption s of
            None \<Rightarrow> Inl RemoteNotConfigured
          | Some cfg \<Rightarrow>
              Inr \<lparr> GetBucketEncryptionOutput =
                      Some \<lparr> ServerSideEncryptionConfiguration = Some cfg \<rparr> \<rparr>,
          s)),
       PutBucketEncryptionRequest = (\<lambda>inp s.
         (None, s \<lparr> stored_encryption := Put_ServerSideEncryptionConfiguration inp \<rparr>)),
       DeleteBucketEncryptionRequest = (\<lambda>inp s. (None, s \<lparr> stored_encryption := None \<rparr>)) \<rparr>"

subsection \<open>Reading the results\<close>

text \<open>
  What the remote read of \<^verbatim>\<open>LateInitialize\<close> and \<^verbatim>\<open>Observe\<close> answers for a bucket in a
  world: the request is keyed by the external name of the bucket.
\<close>

definition logging_read ::
  "awsclient \<Rightarrow> 's BucketClient \<Rightarrow> v1beta1_Bucket \<Rightarrow> 's world
     \<Rightarrow> error + awss3_GetBucketLoggingResponse" where
  "logging_read ac c bucket w =
     fst (GetBucketLoggingRequest c
            \<lparr> GetBucketLogging_Bucket = String ac (ExternalName bucket) \<rparr> (remote w))"

definition encryption_read ::
  "awsclient \<Rightarrow> 's BucketClient \<Rightarrow> v1beta1_Bucket \<Rightarrow> 's world
     \<Rightarrow> error + awss3_GetBucketEncryptionResponse" where
  "encryption_read ac c bucket w =
     fst (GetBucketEncryptionRequest c
            \<lparr> GetBucketEncryption_Bucket = String ac (ExternalName bucket) \<rparr> (remote w))"

text \<open>What an operation returned, the bucket it left and the world it left.\<close>

definition returned :: "'r \<times> v1beta1_Bucket \<times> 'w \<Rightarrow> 'r" where
  "returned r = fst r"

definition bucket_after :: "'r \<times> v1beta1_Bucket \<times> 'w \<Rightarrow> v1beta1_Bucket" where
  "bucket_after r = fst (snd r)"

definition world_after :: "'r \<times> v1beta1_Bucket \<times> 'w \<Rightarrow> 'w" where
  "world_after r = snd (snd r)"


text \<open>The worlds in which nothing has been sent yet.\<close>

definition fresh_world :: "unit world" where
  "fresh_world = \<lparr> remote = (), calls = [] \<rparr>"

definition fresh_store :: "store world" where
  "fresh_store = \<lparr> remote = \<lparr> stored_logging = None, stored_encryption = None \<rparr>, calls = [] \<rparr>"

text \<open>
  The number of rule entries and of grant entries that a successful read reports; a
  remote side without the configuration reports none.
\<close>

definition remote_rule_count :: "awss3_GetBucketEncryptionOutput \<Rightarrow> nat" where
  "remote_rule_count out =
     (case ServerSideEncryptionConfiguration out of None \<Rightarrow> 0 | Some ext \<Rightarrow> len (awsRules ext))"

definition remote_grant_count :: "awss3_GetBucketLoggingOutput \<Rightarrow> nat" where
  "remote_grant_count out =
     (case LoggingEnabled out of None \<Rightarrow> 0 | Some le \<Rightarrow> len (awsTargetGrants le))"

text \<open>
  The two comparisons in the body of the loop of \<^verbatim>\<open>Observe\<close> both pass for a remote
  rule and a desired rule: the remote rule has a default, and the keys (as
  \<^verbatim>\<open>StringValue\<close> reads them) and the algorithms are equal.
\<close>

definition rule_agrees ::
  "awsclient \<Rightarrow> awss3_ServerSideEncryptionRule \<Rightarrow> v1beta1_ServerSideEncryptionRule \<Rightarrow> bool" where
  "rule_agrees ac remote_rule Rule =
     (case awsApplyServerSideEncryptionByDefault remote_rule of
        None \<Rightarrow> False
      | Some outputRule \<Rightarrow>
          StringValue ac (awsKMSMasterKeyID outputRule)
            = StringValue ac (KMSMasterKeyID (ApplyServerSideEncryptionByDefault Rule))
          \<and> awsSSEAlgorithm outputRule = SSEAlgorithm (ApplyServerSideEncryptionByDefault Rule))"

subsection \<open>Concrete inputs\<close>

definition bucket_with ::
  "v1beta1_LoggingConfiguration option \<Rightarrow> v1beta1_ServerSideEncryptionConfiguration option
     \<Rightarrow> v1beta1_Bucket" where
  "bucket_with logging encryption =
     \<lparr> ExternalName = ''bucket'',
       ForProvider_LoggingConfiguration = logging,
       ForProvider_ServerSideEncryptionConfiguration = encryption \<rparr>"

definition rule_with :: "string \<Rightarrow> v1beta1_ServerSideEncryptionRule" where
  "rule_with algorithm =
     \<lparr> ApplyServerSideEncryptionByDefault =
         \<lparr> KMSMasterKeyID = None, SSEAlgorithm = algorithm \<rparr> \<rparr>"

definition remote_rule_with :: "string \<Rightarrow> awss3_ServerSideEncryptionRule" where
  "remote_rule_with algorithm =
     \<lparr> awsApplyServerSideEncryptionByDefault =
         Some \<lparr> awsKMSMasterKeyID = None, awsSSEAlgorithm = algorithm \<rparr> \<rparr>"

definition encryption_answer ::
  "awss3_ServerSideEncryptionRule list \<Rightarrow> error + awss3_GetBucketEncryptionResponse" where
  "encryption_answer rules =
     Inr \<lparr> GetBucketEncryptionOutput =
             Some \<lparr> ServerSideEncryptionConfiguration = Some \<lparr> awsRules = Some rules \<rparr> \<rparr> \<rparr>"

definition logs_to :: "string \<Rightarrow> v1beta1_TargetGrant slice \<Rightarrow> v1beta1_LoggingConfiguration" where
  "logs_to target grants =
     \<lparr> TargetBucket = Some target, TargetPrefix = [], TargetGrants = grants \<rparr>"

definition remote_grant_to :: "string \<Rightarrow> awss3_TargetGrant" where
  "remote_grant_to uri =
     \<lparr> awsGrantee = Some \<lparr> awsDisplayName = None, awsEmailAddress = None, awsID = None,
                           awsType = ''Group'', awsURI = Some uri \<rparr>,
       awsPermission = ''READ'' \<rparr>"

definition grant_to :: "string \<Rightarrow> v1beta1_TargetGrant" where
  "grant_to uri =
     \<lparr> Grantee = \<lparr> DisplayName = None, EmailAddress = None, ID = None,
                   Type = ''Group'', URI = Some uri \<rparr>,
       Permission = ''READ'' \<rparr>"

definition logging_answer ::
  "string \<Rightarrow> awss3_TargetGrant slice \<Rightarrow> error + awss3_GetBucketLoggingResponse" where
  "logging_answer target grants =
     Inr \<lparr> GetBucketLoggingOutput = Some \<lparr> LoggingEnabled =
             Some \<lparr> awsTargetBucket = Some target, awsTargetGrants = grants,
                    awsTargetPrefix = None \<rparr> \<rparr> \<rparr>"

definition no_logging :: "error + awss3_GetBucketLoggingResponse" where
  "no_logging = Inr \<lparr> GetBucketLoggingOutput = Some \<lparr> LoggingEnabled = None \<rparr> \<rparr>"

section \<open>Unfolding the concrete inputs\<close>

lemmas concrete_defs =
  bucket_with_def rule_with_def remote_rule_with_def encryption_answer_def logs_to_def
  remote_grant_to_def grant_to_def logging_answer_def no_logging_def fixed_client_def
  fresh_world_def pointer_helpers_def encryption_read_def logging_read_def
  remote_rule_count_def remote_grant_count_def len_def elems_def

section \<open>The loops\<close>

lemma fill_from_take:
  "length dst = i + length vs \<Longrightarrow> fill_from f vs i dst = take i dst @ map f vs"
proof (induction vs arbitrary: i dst)
  case Nil
  then show ?case by simp
next
  case (Cons v vs)
  have "fill_from f vs (Suc i) (dst[i := f v]) = take (Suc i) (dst[i := f v]) @ map f vs"
    using Cons.prems by (intro Cons.IH) simp
  moreover have "take (Suc i) (dst[i := f v]) = take i dst @ [f v]"
    using Cons.prems by (simp add: take_Suc_conv_app_nth)
  ultimately show ?case by simp
qed

lemma fill_from_replicate: "fill_from f vs 0 (replicate (length vs) z) = map f vs"
  using fill_from_take [of "replicate (length vs) z" 0 vs f] by simp

lemma append_from_map: "append_from f vs dst = dst @ map f vs"
  by (induction vs arbitrary: dst) simp_all

lemma len_elems: "len s = length (elems s)"
  by (simp add: len_def elems_def split: option.splits)

lemma fill_from_deref_take:
  "length dst = i + length vs \<Longrightarrow> \<forall>v \<in> set vs. f v \<noteq> None \<Longrightarrow>
   fill_from_deref f vs i dst = (True, take i dst @ map (\<lambda>v. the (f v)) vs)"
proof (induction vs arbitrary: i dst)
  case Nil
  then show ?case by simp
next
  case (Cons v vs)
  from Cons.prems obtain y where y: "f v = Some y" by auto
  have "fill_from_deref f vs (Suc i) (dst[i := y])
          = (True, take (Suc i) (dst[i := y]) @ map (\<lambda>v. the (f v)) vs)"
    using Cons.prems by (intro Cons.IH) simp_all
  moreover have "take (Suc i) (dst[i := y]) = take i dst @ [y]"
    using Cons.prems by (simp add: take_Suc_conv_app_nth)
  ultimately show ?case using y by simp
qed

lemma fill_from_deref_replicate:
  "\<forall>v \<in> set vs. f v \<noteq> None \<Longrightarrow>
   fill_from_deref f vs 0 (replicate (length vs) z) = (True, map (\<lambda>v. the (f v)) vs)"
  using fill_from_deref_take [of "replicate (length vs) z" 0 vs f] by simp

lemma fill_from_deref_nil:
  "\<exists>v \<in> set vs. f v = None \<Longrightarrow> fst (fill_from_deref f vs i dst) = False"
  by (induction vs arbitrary: i dst) (auto split: option.splits)

section \<open>Observe as a function of the answer of the read\<close>

lemma send_GetBucketEncryption_read:
  "fst (send_GetBucketEncryption c
          \<lparr> GetBucketEncryption_Bucket = String ac (ExternalName bucket) \<rparr> w)
     = encryption_read ac c bucket w"
  by (simp add: send_GetBucketEncryption_def encryption_read_def split: prod.splits)

lemma send_GetBucketLogging_read:
  "fst (send_GetBucketLogging c
          \<lparr> GetBucketLogging_Bucket = String ac (ExternalName bucket) \<rparr> w)
     = logging_read ac c bucket w"
  by (simp add: send_GetBucketLogging_def logging_read_def split: prod.splits)

lemma sse_Observe_returned:
  "returned (sse_Observe ac c bucket w) =
     (case encryption_read ac c bucket w of
        Inl err \<Rightarrow>
          if SSEConfigurationNotFound err \<and> ForProvider_ServerSideEncryptionConfiguration bucket = None
          then Inr (Updated, None)
          else Inr (NeedsUpdate, Wrap (Ignore SSEConfigurationNotFound (Some err)) sseGetFailed)
      | Inr external \<Rightarrow>
          (case GetBucketEncryptionOutput external of
             None \<Rightarrow> Inl NilPointerDereference
           | Some out \<Rightarrow>
               (case (ServerSideEncryptionConfiguration out,
                      ForProvider_ServerSideEncryptionConfiguration bucket) of
                  (Some ext, None) \<Rightarrow> Inr (NeedsDeletion, None)
                | (None, None) \<Rightarrow> Inr (Updated, None)
                | (None, Some cfg) \<Rightarrow> Inr (NeedsUpdate, None)
                | (Some ext, Some cfg) \<Rightarrow>
                    if len (awsRules ext) \<noteq> len (Rules cfg) then Inr (NeedsUpdate, None)
                    else observe_rules ac (elems (awsRules ext)) 0 (elems (Rules cfg)))))"
proof -
  obtain r w' where s: "send_GetBucketEncryption c
      \<lparr> GetBucketEncryption_Bucket = String ac (ExternalName bucket) \<rparr> w = (r, w')"
    by (cases "send_GetBucketEncryption c
      \<lparr> GetBucketEncryption_Bucket = String ac (ExternalName bucket) \<rparr> w")
  then have r: "encryption_read ac c bucket w = r"
    using send_GetBucketEncryption_read [of c ac bucket w] by simp
  show ?thesis
    unfolding returned_def sse_Observe_def Let_def s r
    by (auto split: sum.splits option.splits)
qed

lemma logging_Observe_returned:
  "returned (logging_Observe ac c bucket w) =
     (case logging_read ac c bucket w of
        Inl err \<Rightarrow> Inr (NeedsUpdate, Wrap (Some err) loggingGetFailed)
      | Inr external \<Rightarrow>
          (case GetBucketLoggingOutput external of
             None \<Rightarrow> Inl NilPointerDereference
           | Some out \<Rightarrow>
               if GenerateAWSLogging ac (ForProvider_LoggingConfiguration bucket) = LoggingEnabled out
               then Inr (Updated, None) else Inr (NeedsUpdate, None)))"
proof -
  obtain r w' where s: "send_GetBucketLogging c
      \<lparr> GetBucketLogging_Bucket = String ac (ExternalName bucket) \<rparr> w = (r, w')"
    by (cases "send_GetBucketLogging c
      \<lparr> GetBucketLogging_Bucket = String ac (ExternalName bucket) \<rparr> w")
  then have r: "logging_read ac c bucket w = r"
    using send_GetBucketLogging_read [of c ac bucket w] by simp
  show ?thesis
    unfolding returned_def logging_Observe_def s r
    by (auto simp: cmp_Equal_def split: sum.splits option.splits)
qed

lemma observe_rules_result:
  "observe_rules ac ext i rs = Inr (st, err) \<Longrightarrow> st \<noteq> NeedsDeletion \<and> err = None"
  by (induction ac ext i rs rule: observe_rules.induct)
     (auto split: if_splits option.splits)

lemma len_GenerateAWSLogging:
  "GenerateAWSLogging ac (Some cfg) = Some out \<Longrightarrow> len (awsTargetGrants out) = len (TargetGrants cfg)"
  by (cases "TargetGrants cfg")
     (auto simp: GenerateAWSLogging_def Let_def len_elems fill_from_replicate elems_def)

lemma GenerateAWSLogging_Some: "\<exists>out. GenerateAWSLogging ac (Some cfg) = Some out"
  by (simp add: GenerateAWSLogging_def Let_def)

section \<open>Observe reads only\<close>

text \<open>
  Claim C8. For every bucket, every client and every state of the remote side, the
  bucket that \<^verbatim>\<open>Observe\<close> of the logging facet leaves is the bucket it was given, and
  so is the bucket that \<^verbatim>\<open>Observe\<close> of the encryption facet leaves: both desired states,
  with all their nested fields, are unchanged whatever the remote read answers.
\<close>

theorem Observe_leaves_bucket:
  "bucket_after (logging_Observe ac c bucket w) = bucket
   \<and> bucket_after (sse_Observe ac c bucket w) = bucket"
  by (simp add: bucket_after_def logging_Observe_def sse_Observe_def Let_def
      split: prod.splits sum.splits option.splits)

section \<open>The projections\<close>

lemma local_of_aws_rule:
  "local_ServerSideEncryptionRule (aws_ServerSideEncryptionRule r) = Some r"
  by (simp add: local_ServerSideEncryptionRule_def aws_ServerSideEncryptionRule_def)

text \<open>
  Claim C7. For every desired encryption configuration \<open>d\<close> that is not nil,
  \<^verbatim>\<open>GeneratePutBucketEncryptionInput\<close> returns a request, and
  \<^verbatim>\<open>GenerateLocalBucketEncryption\<close> of the configuration in that request returns the
  rules of \<open>d\<close>: the same rules in the same order, each with the key and the algorithm it
  had. The result is never the nil slice: the nil slice of rules comes back as the empty
  one, which has the same (no) elements.
\<close>

theorem GenerateLocal_of_GeneratePut:
  "\<exists>input. GeneratePutBucketEncryptionInput ac name (Some d) = Inr input
     \<and> GenerateLocalBucketEncryption (Put_ServerSideEncryptionConfiguration input)
         = Inr (Some (elems (Rules d)))"
proof -
  let ?rs = "elems (Rules d)"
  let ?ext = "\<lparr> awsRules = Some (map aws_ServerSideEncryptionRule ?rs) \<rparr>"
  have put: "GeneratePutBucketEncryptionInput ac name (Some d)
               = Inr \<lparr> PutBucketEncryption_Bucket = String ac name,
                       Put_ServerSideEncryptionConfiguration = Some ?ext \<rparr>"
    by (simp add: GeneratePutBucketEncryptionInput_def len_elems fill_from_replicate)
  have "fill_from_deref local_ServerSideEncryptionRule (map aws_ServerSideEncryptionRule ?rs) 0
          (replicate (length (map aws_ServerSideEncryptionRule ?rs)) zero_ServerSideEncryptionRule)
        = (True, map (\<lambda>v. the (local_ServerSideEncryptionRule v))
                   (map aws_ServerSideEncryptionRule ?rs))"
    by (rule fill_from_deref_replicate) (simp add: local_of_aws_rule)
  then have "GenerateLocalBucketEncryption (Some ?ext) = Inr (Some ?rs)"
    by (simp add: GenerateLocalBucketEncryption_def len_def elems_def comp_def local_of_aws_rule)
  with put show ?thesis by simp
qed

text \<open>
  Claim C10. For every desired logging configuration that is not nil, the request of
  \<^verbatim>\<open>GeneratePutBucketLoggingInput\<close> carries a \<^verbatim>\<open>LoggingEnabled\<close> and
  \<^verbatim>\<open>GenerateAWSLogging\<close> returns one. When the desired \<^verbatim>\<open>TargetGrants\<close> is not nil the
  two are equal. When it is nil, \<^verbatim>\<open>GenerateAWSLogging\<close> leaves \<^verbatim>\<open>TargetGrants\<close> nil and
  the request has the empty slice that is not nil, and the two agree on \<^verbatim>\<open>TargetBucket\<close>
  and \<^verbatim>\<open>TargetPrefix\<close>.
\<close>

theorem renderings_of_logging:
  "\<exists>le out.
     GeneratePutBucketLoggingInput ac name (Some cfg)
       = Inr \<lparr> PutBucketLogging_Bucket = String ac name,
               BucketLoggingStatus = Some \<lparr> Status_LoggingEnabled = Some le \<rparr> \<rparr>
     \<and> GenerateAWSLogging ac (Some cfg) = Some out
     \<and> (TargetGrants cfg \<noteq> None \<longrightarrow> le = out)
     \<and> (TargetGrants cfg = None \<longrightarrow>
          awsTargetGrants out = None \<and> awsTargetGrants le = Some []
          \<and> awsTargetBucket le = awsTargetBucket out
          \<and> awsTargetPrefix le = awsTargetPrefix out)"
  by (cases "TargetGrants cfg")
     (simp_all add: GeneratePutBucketLoggingInput_def GenerateAWSLogging_def Let_def
        len_elems fill_from_replicate append_from_map elems_def)

theorem renderings_of_logging_witness:
  "TargetGrants (logs_to ''logs'' (Some [grant_to ''uri''])) \<noteq> None
   \<and> TargetGrants (logs_to ''logs'' None) = None
   \<and> GeneratePutBucketLoggingInput pointer_helpers ''bucket''
        (Some (logs_to ''logs'' (Some [grant_to ''uri''])))
       = Inr \<lparr> PutBucketLogging_Bucket = Some ''bucket'',
               BucketLoggingStatus = Some \<lparr> Status_LoggingEnabled =
                 GenerateAWSLogging pointer_helpers
                   (Some (logs_to ''logs'' (Some [grant_to ''uri'']))) \<rparr> \<rparr>
   \<and> GeneratePutBucketLoggingInput pointer_helpers ''bucket'' (Some (logs_to ''logs'' None))
       \<noteq> Inr \<lparr> PutBucketLogging_Bucket = Some ''bucket'',
               BucketLoggingStatus = Some \<lparr> Status_LoggingEnabled =
                 GenerateAWSLogging pointer_helpers (Some (logs_to ''logs'' None)) \<rparr> \<rparr>"
  using renderings_of_logging [of pointer_helpers "''bucket''" "logs_to ''logs'' (Some [grant_to ''uri''])"]
    renderings_of_logging [of pointer_helpers "''bucket''" "logs_to ''logs'' None"]
  by (auto simp: logs_to_def pointer_helpers_def)

section \<open>Absent desired state\<close>

text \<open>
  Claim C3. When the desired encryption configuration is nil and the remote read fails
  with the recognised not-configured condition, \<^verbatim>\<open>Observe\<close> returns \<^verbatim>\<open>Updated\<close> and the
  nil error. When the desired state of a facet is nil, \<^verbatim>\<open>CreateOrUpdate\<close> of that facet
  returns the nil error and leaves the bucket and the world as they were: the state of
  the remote side is the same and nothing was added to the requests sent.
\<close>

theorem absent_desired_state:
  "(ForProvider_ServerSideEncryptionConfiguration bucket = None
      \<and> encryption_read ac c bucket w = Inl err \<and> SSEConfigurationNotFound err
     \<longrightarrow> returned (sse_Observe ac c bucket w) = Inr (Updated, None))
   \<and> (ForProvider_LoggingConfiguration bucket = None
     \<longrightarrow> logging_CreateOrUpdate ac c bucket w = (Inr None, bucket, w))
   \<and> (ForProvider_ServerSideEncryptionConfiguration bucket = None
     \<longrightarrow> sse_CreateOrUpdate ac c bucket w = (Inr None, bucket, w))"
  by (simp add: sse_Observe_returned logging_CreateOrUpdate_def sse_CreateOrUpdate_def)

theorem absent_desired_state_witness:
  "ForProvider_ServerSideEncryptionConfiguration
     \<lparr> ExternalName = ''b'', ForProvider_LoggingConfiguration = None,
       ForProvider_ServerSideEncryptionConfiguration = None \<rparr> = None
   \<and> ForProvider_LoggingConfiguration
     \<lparr> ExternalName = ''b'', ForProvider_LoggingConfiguration = None,
       ForProvider_ServerSideEncryptionConfiguration = None \<rparr> = None
   \<and> encryption_read pointer_helpers store_client
       \<lparr> ExternalName = ''b'', ForProvider_LoggingConfiguration = None,
         ForProvider_ServerSideEncryptionConfiguration = None \<rparr> fresh_store
       = Inl RemoteNotConfigured
   \<and> SSEConfigurationNotFound RemoteNotConfigured
   \<and> returned (sse_Observe pointer_helpers store_client
        \<lparr> ExternalName = ''b'', ForProvider_LoggingConfiguration = None,
          ForProvider_ServerSideEncryptionConfiguration = None \<rparr> fresh_store)
       = Inr (Updated, None)
   \<and> calls (world_after (logging_CreateOrUpdate pointer_helpers store_client
        \<lparr> ExternalName = ''b'', ForProvider_LoggingConfiguration = None,
          ForProvider_ServerSideEncryptionConfiguration = None \<rparr> fresh_store)) = []
   \<and> calls (world_after (sse_CreateOrUpdate pointer_helpers store_client
        \<lparr> ExternalName = ''b'', ForProvider_LoggingConfiguration = None,
          ForProvider_ServerSideEncryptionConfiguration = None \<rparr> fresh_store)) = []"
  using absent_desired_state [of
      "\<lparr> ExternalName = ''b'', ForProvider_LoggingConfiguration = None,
         ForProvider_ServerSideEncryptionConfiguration = None \<rparr>"
      pointer_helpers store_client fresh_store RemoteNotConfigured]
  by (simp add: encryption_read_def store_client_def fresh_store_def
      SSEConfigurationNotFound_def world_after_def)

section \<open>The outcome of Observe\<close>

text \<open>
  Claim C4. When the desired state of a facet is present and the remote read succeeds
  with a response that carries its output, a number of remote entries that differs from
  the number of desired entries makes \<^verbatim>\<open>Observe\<close> return \<^verbatim>\<open>NeedsUpdate\<close> with the nil
  error, whatever the entries are: the rules of the encryption facet and the target
  grants of the logging facet.
\<close>

theorem count_mismatch_NeedsUpdate:
  "(ForProvider_ServerSideEncryptionConfiguration bucket = Some cfg
      \<and> encryption_read ac c bucket w = Inr external
      \<and> GetBucketEncryptionOutput external = Some out
      \<and> remote_rule_count out \<noteq> len (Rules cfg)
     \<longrightarrow> returned (sse_Observe ac c bucket w) = Inr (NeedsUpdate, None))
   \<and> (ForProvider_LoggingConfiguration bucket = Some lcfg
      \<and> logging_read ac c bucket w = Inr lexternal
      \<and> GetBucketLoggingOutput lexternal = Some lout
      \<and> remote_grant_count lout \<noteq> len (TargetGrants lcfg)
     \<longrightarrow> returned (logging_Observe ac c bucket w) = Inr (NeedsUpdate, None))"
proof (intro conjI impI)
  assume "ForProvider_ServerSideEncryptionConfiguration bucket = Some cfg
      \<and> encryption_read ac c bucket w = Inr external
      \<and> GetBucketEncryptionOutput external = Some out
      \<and> remote_rule_count out \<noteq> len (Rules cfg)"
  then show "returned (sse_Observe ac c bucket w) = Inr (NeedsUpdate, None)"
    by (simp add: sse_Observe_returned remote_rule_count_def split: option.splits)
next
  assume a: "ForProvider_LoggingConfiguration bucket = Some lcfg
      \<and> logging_read ac c bucket w = Inr lexternal
      \<and> GetBucketLoggingOutput lexternal = Some lout
      \<and> remote_grant_count lout \<noteq> len (TargetGrants lcfg)"
  obtain out where out: "GenerateAWSLogging ac (Some lcfg) = Some out"
    using GenerateAWSLogging_Some by blast
  have "Some out \<noteq> LoggingEnabled lout"
  proof
    assume "Some out = LoggingEnabled lout"
    then have "LoggingEnabled lout = Some out" by simp
    then have "remote_grant_count lout = len (awsTargetGrants out)"
      by (simp add: remote_grant_count_def)
    with a len_GenerateAWSLogging [OF out] show False by simp
  qed
  with a out show "returned (logging_Observe ac c bucket w) = Inr (NeedsUpdate, None)"
    by (simp add: logging_Observe_returned)
qed

theorem count_mismatch_NeedsUpdate_witness:
  "remote_rule_count \<lparr> ServerSideEncryptionConfiguration = Some \<lparr> awsRules = Some [] \<rparr> \<rparr>
     \<noteq> len (Rules \<lparr> Rules = Some [rule_with ''AES256''] \<rparr>)
   \<and> returned (sse_Observe pointer_helpers
         (fixed_client (logging_answer ''logs'' (Some [remote_grant_to ''uri''])) (encryption_answer []))
         (bucket_with (Some (logs_to ''logs'' None)) (Some \<lparr> Rules = Some [rule_with ''AES256''] \<rparr>))
         fresh_world) = Inr (NeedsUpdate, None)
   \<and> returned (logging_Observe pointer_helpers
         (fixed_client (logging_answer ''logs'' (Some [remote_grant_to ''uri''])) (encryption_answer []))
         (bucket_with (Some (logs_to ''logs'' None)) (Some \<lparr> Rules = Some [rule_with ''AES256''] \<rparr>))
         fresh_world) = Inr (NeedsUpdate, None)"
  using count_mismatch_NeedsUpdate [of
      "bucket_with (Some (logs_to ''logs'' None)) (Some \<lparr> Rules = Some [rule_with ''AES256''] \<rparr>)"
      "\<lparr> Rules = Some [rule_with ''AES256''] \<rparr>"
      pointer_helpers
      "fixed_client (logging_answer ''logs'' (Some [remote_grant_to ''uri''])) (encryption_answer [])"
      fresh_world
      "\<lparr> GetBucketEncryptionOutput =
           Some \<lparr> ServerSideEncryptionConfiguration = Some \<lparr> awsRules = Some [] \<rparr> \<rparr> \<rparr>"
      "\<lparr> ServerSideEncryptionConfiguration = Some \<lparr> awsRules = Some [] \<rparr> \<rparr>"
      "logs_to ''logs'' None"
      "\<lparr> GetBucketLoggingOutput = Some \<lparr> LoggingEnabled =
           Some \<lparr> awsTargetBucket = Some ''logs'', awsTargetGrants = Some [remote_grant_to ''uri''],
                  awsTargetPrefix = None \<rparr> \<rparr> \<rparr>"
      "\<lparr> LoggingEnabled =
           Some \<lparr> awsTargetBucket = Some ''logs'', awsTargetGrants = Some [remote_grant_to ''uri''],
                  awsTargetPrefix = None \<rparr> \<rparr>"]
  by (simp add: concrete_defs)

text \<open>
  Claim C5. \<^verbatim>\<open>Observe\<close> of the encryption facet returns \<^verbatim>\<open>NeedsDeletion\<close> exactly when
  the remote read succeeds with a configuration that is not nil while the desired
  configuration is nil. \<^verbatim>\<open>Observe\<close> of the logging facet never returns
  \<^verbatim>\<open>NeedsDeletion\<close>, and when the remote side reports a \<^verbatim>\<open>LoggingEnabled\<close> that is not
  nil while the desired configuration is nil it returns \<^verbatim>\<open>NeedsUpdate\<close>.
\<close>

theorem NeedsDeletion_only_for_encryption:
  "((\<exists>err. returned (sse_Observe ac c bucket w) = Inr (NeedsDeletion, err))
      \<longleftrightarrow> (\<exists>external out ext.
             encryption_read ac c bucket w = Inr external
           \<and> GetBucketEncryptionOutput external = Some out
           \<and> ServerSideEncryptionConfiguration out = Some ext
           \<and> ForProvider_ServerSideEncryptionConfiguration bucket = None))
   \<and> (\<forall>err. returned (logging_Observe ac c bucket w) \<noteq> Inr (NeedsDeletion, err))
   \<and> (logging_read ac c bucket w = Inr lexternal
        \<and> GetBucketLoggingOutput lexternal = Some lout
        \<and> LoggingEnabled lout \<noteq> None
        \<and> ForProvider_LoggingConfiguration bucket = None
       \<longrightarrow> returned (logging_Observe ac c bucket w) = Inr (NeedsUpdate, None))"
proof (intro conjI)
  show "(\<exists>err. returned (sse_Observe ac c bucket w) = Inr (NeedsDeletion, err))
      \<longleftrightarrow> (\<exists>external out ext.
             encryption_read ac c bucket w = Inr external
           \<and> GetBucketEncryptionOutput external = Some out
           \<and> ServerSideEncryptionConfiguration out = Some ext
           \<and> ForProvider_ServerSideEncryptionConfiguration bucket = None)"
    unfolding sse_Observe_returned
    by (auto split: sum.splits option.splits if_splits dest: observe_rules_result)
  show "\<forall>err. returned (logging_Observe ac c bucket w) \<noteq> Inr (NeedsDeletion, err)"
    unfolding logging_Observe_returned by (auto split: sum.splits option.splits)
  show "logging_read ac c bucket w = Inr lexternal
        \<and> GetBucketLoggingOutput lexternal = Some lout
        \<and> LoggingEnabled lout \<noteq> None
        \<and> ForProvider_LoggingConfiguration bucket = None
       \<longrightarrow> returned (logging_Observe ac c bucket w) = Inr (NeedsUpdate, None)"
    by (auto simp: logging_Observe_returned GenerateAWSLogging_def)
qed

theorem NeedsDeletion_only_for_encryption_witness:
  "returned (sse_Observe pointer_helpers
       (fixed_client (logging_answer ''logs'' None) (encryption_answer [remote_rule_with ''AES256'']))
       (bucket_with None None) fresh_world) = Inr (NeedsDeletion, None)
   \<and> returned (logging_Observe pointer_helpers
       (fixed_client (logging_answer ''logs'' None) (encryption_answer [remote_rule_with ''AES256'']))
       (bucket_with None None) fresh_world) = Inr (NeedsUpdate, None)"
  using NeedsDeletion_only_for_encryption [of pointer_helpers
      "fixed_client (logging_answer ''logs'' None) (encryption_answer [remote_rule_with ''AES256''])"
      "bucket_with None None" fresh_world
      "\<lparr> GetBucketLoggingOutput = Some \<lparr> LoggingEnabled =
           Some \<lparr> awsTargetBucket = Some ''logs'', awsTargetGrants = None,
                  awsTargetPrefix = None \<rparr> \<rparr> \<rparr>"
      "\<lparr> LoggingEnabled =
           Some \<lparr> awsTargetBucket = Some ''logs'', awsTargetGrants = None,
                  awsTargetPrefix = None \<rparr> \<rparr>"]
  by (simp add: concrete_defs sse_Observe_returned logging_Observe_returned GenerateAWSLogging_def)

section \<open>The not-configured condition in Observe\<close>

text \<open>
  Claim C2, as stated: with a desired encryption configuration that is not nil and a
  remote read that fails with the recognised not-configured condition, \<^verbatim>\<open>Observe\<close>
  returns that condition as its error. It does not: at the input below the error that
  \<^verbatim>\<open>Observe\<close> returns is nil.
\<close>

theorem not_configured_not_surfaced_counterexample:
  "ForProvider_ServerSideEncryptionConfiguration
       (bucket_with None (Some \<lparr> Rules = Some [rule_with ''AES256''] \<rparr>)) \<noteq> None
   \<and> encryption_read pointer_helpers (fixed_client no_logging (Inl RemoteNotConfigured))
       (bucket_with None (Some \<lparr> Rules = Some [rule_with ''AES256''] \<rparr>)) fresh_world
       = Inl RemoteNotConfigured
   \<and> SSEConfigurationNotFound RemoteNotConfigured
   \<and> sse_Observe pointer_helpers (fixed_client no_logging (Inl RemoteNotConfigured))
       (bucket_with None (Some \<lparr> Rules = Some [rule_with ''AES256''] \<rparr>)) fresh_world
     = (Inr (NeedsUpdate, None),
        bucket_with None (Some \<lparr> Rules = Some [rule_with ''AES256''] \<rparr>),
        \<lparr> remote = (),
          calls = [GetBucketEncryptionCall \<lparr> GetBucketEncryption_Bucket = Some ''bucket'' \<rparr>] \<rparr>)"
  by (simp add: sse_Observe_def send_GetBucketEncryption_def concrete_defs
      SSEConfigurationNotFound_def Ignore_def Wrap_def)

text \<open>
  Claim C2, amended. With a desired encryption configuration that is not nil and a
  remote read that fails with the recognised not-configured condition, \<^verbatim>\<open>Observe\<close>
  returns \<^verbatim>\<open>NeedsUpdate\<close> and the nil error: \<^verbatim>\<open>resource.Ignore\<close> absorbs the condition,
  and the outcome alone tells the caller that the remote side has to be written.
\<close>

theorem not_configured_is_absorbed:
  "ForProvider_ServerSideEncryptionConfiguration bucket \<noteq> None
   \<Longrightarrow> encryption_read ac c bucket w = Inl err
   \<Longrightarrow> SSEConfigurationNotFound err
   \<Longrightarrow> returned (sse_Observe ac c bucket w) = Inr (NeedsUpdate, None)"
  by (simp add: sse_Observe_returned Ignore_def Wrap_def)

theorem not_configured_is_absorbed_witness:
  "ForProvider_ServerSideEncryptionConfiguration
       (bucket_with None (Some \<lparr> Rules = Some [rule_with ''AES256''] \<rparr>)) \<noteq> None
   \<and> encryption_read pointer_helpers (fixed_client no_logging (Inl RemoteNotConfigured))
       (bucket_with None (Some \<lparr> Rules = Some [rule_with ''AES256''] \<rparr>)) fresh_world
       = Inl RemoteNotConfigured
   \<and> SSEConfigurationNotFound RemoteNotConfigured
   \<and> returned (sse_Observe pointer_helpers (fixed_client no_logging (Inl RemoteNotConfigured))
       (bucket_with None (Some \<lparr> Rules = Some [rule_with ''AES256''] \<rparr>)) fresh_world)
       = Inr (NeedsUpdate, None)"
  using not_configured_is_absorbed [of
      "bucket_with None (Some \<lparr> Rules = Some [rule_with ''AES256''] \<rparr>)"
      pointer_helpers "fixed_client no_logging (Inl RemoteNotConfigured)" fresh_world
      RemoteNotConfigured]
  by (simp add: concrete_defs SSEConfigurationNotFound_def)

section \<open>Observe after CreateOrUpdate\<close>














section \<open>Late initialisation\<close>

text \<open>
  The logging facet fills only what is unset: a target bucket that is not nil, a target
  prefix that is not empty and a list of target grants that is not empty are what they
  were, whatever the remote side reports and also when the read through the response or
  the loop over the remote grants panics. A list of target grants that is empty, nil or
  not, counts as unset.
\<close>

lemma logging_LateInitialize_keeps_set_fields:
  assumes "ForProvider_LoggingConfiguration bucket = Some cfg"
  shows "\<exists>cfg'. ForProvider_LoggingConfiguration
                  (bucket_after (logging_LateInitialize ac c bucket w)) = Some cfg'
           \<and> (TargetBucket cfg \<noteq> None \<longrightarrow> TargetBucket cfg' = TargetBucket cfg)
           \<and> (TargetPrefix cfg \<noteq> [] \<longrightarrow> TargetPrefix cfg' = TargetPrefix cfg)
           \<and> (len (TargetGrants cfg) \<noteq> 0 \<longrightarrow> TargetGrants cfg' = TargetGrants cfg)"
proof -
  obtain r w' where s: "send_GetBucketLogging c
      \<lparr> GetBucketLogging_Bucket = String ac (ExternalName bucket) \<rparr> w = (r, w')"
    by (cases "send_GetBucketLogging c
      \<lparr> GetBucketLogging_Bucket = String ac (ExternalName bucket) \<rparr> w")
  show ?thesis
    unfolding logging_LateInitialize_def s bucket_after_def Let_def
    using assms
    by (auto simp: LateInitializeStringPtr_def LateInitializeString_def
        split: sum.splits option.splits prod.splits)
qed

text \<open>
  Claim C1. \<^verbatim>\<open>LateInitialize\<close> never changes a field of the desired state that is
  already set. The encryption facet breaks it: it assigns the rules of the remote side
  to \<^verbatim>\<open>Rules\<close> without looking at the rules that are there. Below, the desired state has
  the one rule \<^verbatim>\<open>AES256\<close>, the remote side reports the one rule \<^verbatim>\<open>aws:kms\<close>, and
  \<^verbatim>\<open>LateInitialize\<close> returns the nil error and leaves a bucket whose desired rule is
  \<^verbatim>\<open>aws:kms\<close>.
\<close>

theorem sse_LateInitialize_overwrites_Rules:
  "sse_LateInitialize pointer_helpers
       (fixed_client no_logging (encryption_answer [remote_rule_with ''aws:kms'']))
       (bucket_with None (Some \<lparr> Rules = Some [rule_with ''AES256''] \<rparr>)) fresh_world
   = (Inr None,
      bucket_with None (Some \<lparr> Rules = Some [rule_with ''aws:kms''] \<rparr>),
      \<lparr> remote = (),
        calls = [GetBucketEncryptionCall \<lparr> GetBucketEncryption_Bucket = Some ''bucket'' \<rparr>] \<rparr>)"
  by (simp add: sse_LateInitialize_def send_GetBucketEncryption_def concrete_defs
      GenerateLocalBucketEncryption_def local_ServerSideEncryptionRule_def
      zero_ServerSideEncryptionRule_def SSEConfigurationNotFound_def)


section \<open>Rules without a default\<close>

lemma observe_rules_total:
  "\<forall>rule \<in> set ext. awsApplyServerSideEncryptionByDefault rule \<noteq> None
   \<Longrightarrow> i + length rs \<le> length ext
   \<Longrightarrow> \<exists>res. observe_rules ac ext i rs = Inr res"
proof (induction rs arbitrary: i)
  case Nil
  then show ?case by simp
next
  case (Cons r rs)
  from Cons.prems have i: "i < length ext" by simp
  with Cons.prems obtain d where d: "awsApplyServerSideEncryptionByDefault (ext ! i) = Some d"
    by (metis nth_mem not_Some_eq)
  have "\<exists>res. observe_rules ac ext (Suc i) rs = Inr res"
    using Cons.prems by (intro Cons.IH) simp_all
  with i d show ?case by simp
qed

lemma observe_rules_reaches_nil:
  "\<exists>rule \<in> set suf. awsApplyServerSideEncryptionByDefault rule = None
   \<Longrightarrow> \<exists>rs. length rs = length suf
          \<and> observe_rules ac (pre @ suf) (length pre) rs = Inl NilPointerDereference"
proof (induction suf arbitrary: pre)
  case Nil
  then show ?case by simp
next
  case (Cons rule suf)
  show ?case
  proof (cases "awsApplyServerSideEncryptionByDefault rule")
    case None
    then have "observe_rules ac (pre @ rule # suf) (length pre)
                 (zero_ServerSideEncryptionRule # replicate (length suf) zero_ServerSideEncryptionRule)
               = Inl NilPointerDereference"
      by simp
    then show ?thesis
      by (intro exI [of _ "zero_ServerSideEncryptionRule
                            # replicate (length suf) zero_ServerSideEncryptionRule"]) simp
  next
    case (Some d)
    with Cons.prems have "\<exists>rule \<in> set suf. awsApplyServerSideEncryptionByDefault rule = None"
      by auto
    from Cons.IH [OF this, of "pre @ [rule]"]
    obtain rs where rs: "length rs = length suf"
      "observe_rules ac (pre @ rule # suf) (Suc (length pre)) rs = Inl NilPointerDereference"
      by auto
    let ?r = "\<lparr> ApplyServerSideEncryptionByDefault =
                 \<lparr> KMSMasterKeyID = awsKMSMasterKeyID d, SSEAlgorithm = awsSSEAlgorithm d \<rparr> \<rparr>"
    have "observe_rules ac (pre @ rule # suf) (length pre) (?r # rs) = Inl NilPointerDereference"
      using Some rs(2) by simp
    with rs(1) show ?thesis
      by (intro exI [of _ "?r # rs"]) simp
  qed
qed

lemma local_rule_None_iff:
  "local_ServerSideEncryptionRule rule = None
     \<longleftrightarrow> awsApplyServerSideEncryptionByDefault rule = None"
  by (simp add: local_ServerSideEncryptionRule_def split: option.splits)

lemma GenerateLocalBucketEncryption_panics_iff:
  "GenerateLocalBucketEncryption (Some ext) = Inl NilPointerDereference
     \<longleftrightarrow> (\<exists>rule \<in> set (elems (awsRules ext)). awsApplyServerSideEncryptionByDefault rule = None)"
proof (cases "\<exists>rule \<in> set (elems (awsRules ext)). awsApplyServerSideEncryptionByDefault rule = None")
  case True
  then have "\<exists>rule \<in> set (elems (awsRules ext)). local_ServerSideEncryptionRule rule = None"
    by (simp add: local_rule_None_iff)
  from fill_from_deref_nil [OF this]
  have "fst (fill_from_deref local_ServerSideEncryptionRule (elems (awsRules ext)) 0
          (replicate (len (awsRules ext)) zero_ServerSideEncryptionRule)) = False" .
  with True show ?thesis
    by (simp add: GenerateLocalBucketEncryption_def case_prod_beta)
next
  case False
  then have "\<forall>rule \<in> set (elems (awsRules ext)). local_ServerSideEncryptionRule rule \<noteq> None"
    by (simp add: local_rule_None_iff)
  from fill_from_deref_replicate [OF this]
  have "fst (fill_from_deref local_ServerSideEncryptionRule (elems (awsRules ext)) 0
          (replicate (len (awsRules ext)) zero_ServerSideEncryptionRule)) = True"
    by (simp add: len_elems)
  with False show ?thesis
    by (simp add: GenerateLocalBucketEncryption_def case_prod_beta)
qed

lemma encryption_read_desired:
  "encryption_read ac c (bucket \<lparr> ForProvider_ServerSideEncryptionConfiguration := cfg \<rparr>) w
     = encryption_read ac c bucket w"
  by (simp add: encryption_read_def)

lemma observe_rules_nil_iff:
  "length ext = k + length rs \<Longrightarrow>
   observe_rules ac ext k rs = Inl NilPointerDereference
     \<longleftrightarrow> (\<exists>i<length rs. awsApplyServerSideEncryptionByDefault (ext ! (k + i)) = None
            \<and> (\<forall>j<i. rule_agrees ac (ext ! (k + j)) (rs ! j)))"
proof (induction rs arbitrary: k)
  case Nil
  then show ?case by simp
next
  case (Cons r rs)
  from Cons.prems have k: "k < length ext" by simp
  have IH: "observe_rules ac ext (Suc k) rs = Inl NilPointerDereference
     \<longleftrightarrow> (\<exists>i<length rs. awsApplyServerSideEncryptionByDefault (ext ! (Suc k + i)) = None
            \<and> (\<forall>j<i. rule_agrees ac (ext ! (Suc k + j)) (rs ! j)))"
    using Cons.prems by (intro Cons.IH) simp
  show ?case
  proof (cases "awsApplyServerSideEncryptionByDefault (ext ! k)")
    case None
    with k show ?thesis by (auto simp: Ex_less_Suc2)
  next
    case (Some d)
    show ?thesis
    proof (cases "rule_agrees ac (ext ! k) r")
      case True
      have step: "observe_rules ac ext k (r # rs) = observe_rules ac ext (Suc k) rs"
        using True Some k by (simp add: rule_agrees_def)
      show ?thesis
        unfolding step IH using True Some
        by (simp add: Ex_less_Suc2 All_less_Suc2)
    next
      case False
      have step: "observe_rules ac ext k (r # rs) = Inr (NeedsUpdate, None)"
        using False Some k by (auto simp: rule_agrees_def)
      show ?thesis
        unfolding step using False Some
        by (simp add: Ex_less_Suc2 All_less_Suc2)
    qed
  qed
qed

lemma observe_rules_in_range:
  "k + length rs \<le> length ext \<Longrightarrow> observe_rules ac ext k rs \<noteq> Inl IndexOutOfRange"
  by (induction rs arbitrary: k) (auto split: option.splits)

text \<open>
  Claim C9, as stated: \<^verbatim>\<open>GenerateLocalBucketEncryption\<close> and \<^verbatim>\<open>Observe\<close> of the
  encryption facet dereference the nil \<^verbatim>\<open>ApplyServerSideEncryptionByDefault\<close> of any
  remote response that has a rule with one, and of any desired rule. \<^verbatim>\<open>Observe\<close> does
  not for every such response: below, the second remote rule has the nil default, the
  first differs from the first desired rule in its algorithm, and \<^verbatim>\<open>Observe\<close> returns
  \<^verbatim>\<open>NeedsUpdate\<close> at the first rule without reading the second.
\<close>

theorem nil_rule_not_reached_counterexample:
  "awsApplyServerSideEncryptionByDefault zero_awss3_ServerSideEncryptionRule = None
   \<and> encryption_read pointer_helpers
       (fixed_client no_logging
          (encryption_answer [remote_rule_with ''aws:kms'', zero_awss3_ServerSideEncryptionRule]))
       (bucket_with None (Some \<lparr> Rules = Some [rule_with ''AES256'', rule_with ''AES256''] \<rparr>))
       fresh_world
     = encryption_answer [remote_rule_with ''aws:kms'', zero_awss3_ServerSideEncryptionRule]
   \<and> sse_Observe pointer_helpers
       (fixed_client no_logging
          (encryption_answer [remote_rule_with ''aws:kms'', zero_awss3_ServerSideEncryptionRule]))
       (bucket_with None (Some \<lparr> Rules = Some [rule_with ''AES256'', rule_with ''AES256''] \<rparr>))
       fresh_world
     = (Inr (NeedsUpdate, None),
        bucket_with None (Some \<lparr> Rules = Some [rule_with ''AES256'', rule_with ''AES256''] \<rparr>),
        \<lparr> remote = (),
          calls = [GetBucketEncryptionCall \<lparr> GetBucketEncryption_Bucket = Some ''bucket'' \<rparr>] \<rparr>)"
  by (simp add: sse_Observe_def send_GetBucketEncryption_def concrete_defs
      zero_awss3_ServerSideEncryptionRule_def)

text \<open>
  Claim C9, amended. The precondition is on the remote rules alone: a desired rule holds
  its \<^verbatim>\<open>ApplyServerSideEncryptionByDefault\<close> by value and always has one.
  \<^verbatim>\<open>GenerateLocalBucketEncryption\<close> of a configuration panics with the nil dereference
  exactly when one of its rules has the nil default, and returns exactly when none has.
  For a successful read that carries a configuration, \<^verbatim>\<open>Observe\<close> panics with the nil
  dereference exactly when its loop reaches a remote rule with the nil default: the
  desired state is not nil, the two lists have the same length, and every remote rule
  before that one has a default and agrees with the desired rule at its index in key
  and algorithm. It never reads a rule out of range. So \<^verbatim>\<open>Observe\<close> returns whenever
  every remote rule has a default, and when one has none there is a desired state for
  which it panics.
\<close>

theorem nil_rule_panics_when_reached:
  "(GenerateLocalBucketEncryption (Some ext) = Inl NilPointerDereference
      \<longleftrightarrow> (\<exists>rule \<in> set (elems (awsRules ext)). awsApplyServerSideEncryptionByDefault rule = None))
   \<and> ((\<exists>rules. GenerateLocalBucketEncryption (Some ext) = Inr rules)
      \<longleftrightarrow> (\<forall>rule \<in> set (elems (awsRules ext)). awsApplyServerSideEncryptionByDefault rule \<noteq> None))
   \<and> (encryption_read ac c bucket w = Inr external
        \<and> GetBucketEncryptionOutput external = Some out
        \<and> ServerSideEncryptionConfiguration out = Some ext
      \<longrightarrow> (returned (sse_Observe ac c bucket w) = Inl NilPointerDereference
             \<longleftrightarrow> (\<exists>cfg i. ForProvider_ServerSideEncryptionConfiguration bucket = Some cfg
                    \<and> len (awsRules ext) = len (Rules cfg)
                    \<and> i < len (Rules cfg)
                    \<and> awsApplyServerSideEncryptionByDefault (elems (awsRules ext) ! i) = None
                    \<and> (\<forall>j<i. rule_agrees ac (elems (awsRules ext) ! j) (elems (Rules cfg) ! j))))
          \<and> returned (sse_Observe ac c bucket w) \<noteq> Inl IndexOutOfRange
          \<and> ((\<forall>rule \<in> set (elems (awsRules ext)).
                 awsApplyServerSideEncryptionByDefault rule \<noteq> None)
              \<longrightarrow> (\<exists>res. returned (sse_Observe ac c bucket w) = Inr res))
          \<and> ((\<exists>rule \<in> set (elems (awsRules ext)).
                 awsApplyServerSideEncryptionByDefault rule = None)
              \<longrightarrow> (\<exists>cfg. returned (sse_Observe ac c
                            (bucket \<lparr> ForProvider_ServerSideEncryptionConfiguration := cfg \<rparr>) w)
                          = Inl NilPointerDereference)))"
proof (intro conjI impI)
  show p: "GenerateLocalBucketEncryption (Some ext) = Inl NilPointerDereference
      \<longleftrightarrow> (\<exists>rule \<in> set (elems (awsRules ext)). awsApplyServerSideEncryptionByDefault rule = None)"
    by (rule GenerateLocalBucketEncryption_panics_iff)
  have "GenerateLocalBucketEncryption (Some ext) = Inl NilPointerDereference
        \<or> (\<exists>rules. GenerateLocalBucketEncryption (Some ext) = Inr rules)"
    by (simp add: GenerateLocalBucketEncryption_def case_prod_beta)
  with p show "(\<exists>rules. GenerateLocalBucketEncryption (Some ext) = Inr rules)
      \<longleftrightarrow> (\<forall>rule \<in> set (elems (awsRules ext)). awsApplyServerSideEncryptionByDefault rule \<noteq> None)"
    by auto
next
  assume a: "encryption_read ac c bucket w = Inr external
        \<and> GetBucketEncryptionOutput external = Some out
        \<and> ServerSideEncryptionConfiguration out = Some ext"
  let ?ext = "elems (awsRules ext)"
  have obs: "returned (sse_Observe ac c b w) =
     (case ForProvider_ServerSideEncryptionConfiguration b of
        None \<Rightarrow> Inr (NeedsDeletion, None)
      | Some d \<Rightarrow>
          if len (awsRules ext) \<noteq> len (Rules d) then Inr (NeedsUpdate, None)
          else observe_rules ac ?ext 0 (elems (Rules d)))"
    if "encryption_read ac c b w = encryption_read ac c bucket w" for b
    using a that by (simp add: sse_Observe_returned split: option.splits)
  note here = obs [of bucket, OF refl]
  show "returned (sse_Observe ac c bucket w) = Inl NilPointerDereference
             \<longleftrightarrow> (\<exists>cfg i. ForProvider_ServerSideEncryptionConfiguration bucket = Some cfg
                    \<and> len (awsRules ext) = len (Rules cfg)
                    \<and> i < len (Rules cfg)
                    \<and> awsApplyServerSideEncryptionByDefault (?ext ! i) = None
                    \<and> (\<forall>j<i. rule_agrees ac (?ext ! j) (elems (Rules cfg) ! j)))"
  proof (cases "ForProvider_ServerSideEncryptionConfiguration bucket")
    case None
    then show ?thesis by (simp add: here)
  next
    case (Some d)
    show ?thesis
    proof (cases "len (awsRules ext) = len (Rules d)")
      case True
      then have "length ?ext = 0 + length (elems (Rules d))" by (simp add: len_elems)
      from observe_rules_nil_iff [OF this, of ac] True Some
      show ?thesis by (simp add: here len_elems)
    next
      case False
      with Some show ?thesis by (simp add: here)
    qed
  qed
  show "returned (sse_Observe ac c bucket w) \<noteq> Inl IndexOutOfRange"
  proof (cases "ForProvider_ServerSideEncryptionConfiguration bucket")
    case None
    then show ?thesis by (simp add: here)
  next
    case (Some d)
    show ?thesis
    proof (cases "len (awsRules ext) = len (Rules d)")
      case True
      then have "0 + length (elems (Rules d)) \<le> length ?ext" by (simp add: len_elems)
      from observe_rules_in_range [OF this, of ac] True Some
      show ?thesis by (simp add: here)
    next
      case False
      with Some show ?thesis by (simp add: here)
    qed
  qed
  {
    assume nonnil: "\<forall>rule \<in> set ?ext. awsApplyServerSideEncryptionByDefault rule \<noteq> None"
    show "\<exists>res. returned (sse_Observe ac c bucket w) = Inr res"
    proof (cases "ForProvider_ServerSideEncryptionConfiguration bucket")
      case None
      then show ?thesis by (simp add: here)
    next
      case (Some d)
      show ?thesis
      proof (cases "len (awsRules ext) = len (Rules d)")
        case True
        then have "0 + length (elems (Rules d)) \<le> length ?ext" by (simp add: len_elems)
        from observe_rules_total [OF nonnil this, of ac] True Some
        show ?thesis by (simp add: here)
      next
        case False
        with Some show ?thesis by (simp add: here)
      qed
    qed
  }
  {
    assume "\<exists>rule \<in> set ?ext. awsApplyServerSideEncryptionByDefault rule = None"
    from observe_rules_reaches_nil [OF this, of ac "[]"]
    obtain rs where rs: "length rs = length ?ext"
      "observe_rules ac ?ext 0 rs = Inl NilPointerDereference"
      by auto
    let ?b = "bucket \<lparr> ForProvider_ServerSideEncryptionConfiguration := Some \<lparr> Rules = Some rs \<rparr> \<rparr>"
    have "returned (sse_Observe ac c ?b w) = Inl NilPointerDereference"
      using rs obs [of ?b] by (simp add: encryption_read_desired len_elems elems_def)
    then show "\<exists>cfg. returned (sse_Observe ac c
                 (bucket \<lparr> ForProvider_ServerSideEncryptionConfiguration := cfg \<rparr>) w)
               = Inl NilPointerDereference"
      by blast
  }
qed

theorem nil_rule_panics_when_reached_witness:
  "awsApplyServerSideEncryptionByDefault zero_awss3_ServerSideEncryptionRule = None
   \<and> GenerateLocalBucketEncryption
        (Some \<lparr> awsRules = Some [remote_rule_with ''AES256'', zero_awss3_ServerSideEncryptionRule] \<rparr>)
       = Inl NilPointerDereference
   \<and> returned (sse_Observe pointer_helpers
         (fixed_client no_logging
            (encryption_answer [remote_rule_with ''AES256'', zero_awss3_ServerSideEncryptionRule]))
         (bucket_with None (Some \<lparr> Rules = Some [rule_with ''AES256'', rule_with ''AES256''] \<rparr>))
         fresh_world) = Inl NilPointerDereference
   \<and> awsApplyServerSideEncryptionByDefault (remote_rule_with ''AES256'') \<noteq> None
   \<and> (\<exists>rules. GenerateLocalBucketEncryption
         (Some \<lparr> awsRules = Some [remote_rule_with ''AES256''] \<rparr>) = Inr rules)
   \<and> (\<exists>res. returned (sse_Observe pointer_helpers
         (fixed_client no_logging (encryption_answer [remote_rule_with ''AES256'']))
         (bucket_with None (Some \<lparr> Rules = Some [rule_with ''aws:kms''] \<rparr>))
         fresh_world) = Inr res)"
  using nil_rule_panics_when_reached [of
      "\<lparr> awsRules = Some [remote_rule_with ''AES256'', zero_awss3_ServerSideEncryptionRule] \<rparr>"
      pointer_helpers
      "fixed_client no_logging
         (encryption_answer [remote_rule_with ''AES256'', zero_awss3_ServerSideEncryptionRule])"
      "bucket_with None (Some \<lparr> Rules = Some [rule_with ''AES256'', rule_with ''AES256''] \<rparr>)"
      fresh_world
      "\<lparr> GetBucketEncryptionOutput = Some \<lparr> ServerSideEncryptionConfiguration = Some
           \<lparr> awsRules = Some [remote_rule_with ''AES256'', zero_awss3_ServerSideEncryptionRule] \<rparr> \<rparr> \<rparr>"
      "\<lparr> ServerSideEncryptionConfiguration = Some
           \<lparr> awsRules = Some [remote_rule_with ''AES256'', zero_awss3_ServerSideEncryptionRule] \<rparr> \<rparr>"]
    nil_rule_panics_when_reached [of
      "\<lparr> awsRules = Some [remote_rule_with ''AES256''] \<rparr>"
      pointer_helpers
      "fixed_client no_logging (encryption_answer [remote_rule_with ''AES256''])"
      "bucket_with None (Some \<lparr> Rules = Some [rule_with ''aws:kms''] \<rparr>)" fresh_world
      "\<lparr> GetBucketEncryptionOutput = Some \<lparr> ServerSideEncryptionConfiguration = Some
           \<lparr> awsRules = Some [remote_rule_with ''AES256''] \<rparr> \<rparr> \<rparr>"
      "\<lparr> ServerSideEncryptionConfiguration = Some
           \<lparr> awsRules = Some [remote_rule_with ''AES256''] \<rparr> \<rparr>"]
  by (simp add: sse_Observe_returned concrete_defs zero_awss3_ServerSideEncryptionRule_def)

end
